theory Spec2Isabelle
  imports Main "HOL-Library.Sublist"
begin

section \<open>Generated route tables\<close>

text \<open>
  The site generator writes its route table as a JavaScript module whose default export is
  an ordered list of object literals
  \<^verbatim>\<open>{ path, component: ComponentCreator(path, hash), exact?, sidebar?, routes? }\<close>.
  A key that the literal leaves out is \<open>None\<close> here. The component is an opaque
  reference: the two arguments of the \<^verbatim>\<open>ComponentCreator\<close> call (the second is
  missing in the call of the \<^verbatim>\<open>'*'\<close> record).
\<close>

datatype component_ref = ComponentCreator string "string option"

datatype route =
  Route (path: string) (component: component_ref) (exact: "bool option")
    (sidebar: "string option") (routes: "route list option")

text \<open>The default export of \<^verbatim>\<open>refract-docs/.docusaurus/routes.js\<close>.\<close>

definition routes_js :: "route list" where
  "routes_js = [
    Route ''/blog'' (ComponentCreator ''/blog'' (Some ''e35'')) (Some True) None None,
    Route ''/blog/archive'' (ComponentCreator ''/blog/archive'' (Some ''182'')) (Some True) None None,
    Route ''/blog/introducing-refract'' (ComponentCreator ''/blog/introducing-refract'' (Some ''261'')) (Some True) None None,
    Route ''/blog/performance-optimization-guide'' (ComponentCreator ''/blog/performance-optimization-guide'' (Some ''360'')) (Some True) None None,
    Route ''/blog/tags'' (ComponentCreator ''/blog/tags'' (Some ''287'')) (Some True) None None,
    Route ''/blog/tags/advanced'' (ComponentCreator ''/blog/tags/advanced'' (Some ''e70'')) (Some True) None None,
    Route ''/blog/tags/announcement'' (ComponentCreator ''/blog/tags/announcement'' (Some ''3d6'')) (Some True) None None,
    Route ''/blog/tags/best-practices'' (ComponentCreator ''/blog/tags/best-practices'' (Some ''699'')) (Some True) None None,
    Route ''/blog/tags/javascript'' (ComponentCreator ''/blog/tags/javascript'' (Some ''fcb'')) (Some True) None None,
    Route ''/blog/tags/optimization'' (ComponentCreator ''/blog/tags/optimization'' (Some ''09c'')) (Some True) None None,
    Route ''/blog/tags/performance'' (ComponentCreator ''/blog/tags/performance'' (Some ''93a'')) (Some True) None None,
    Route ''/blog/tags/reactive'' (ComponentCreator ''/blog/tags/reactive'' (Some ''390'')) (Some True) None None,
    Route ''/blog/tags/ui'' (ComponentCreator ''/blog/tags/ui'' (Some ''1e9'')) (Some True) None None,
    Route ''/search'' (ComponentCreator ''/search'' (Some ''822'')) (Some True) None None,
    Route ''/docs'' (ComponentCreator ''/docs'' (Some ''008'')) None None (Some [
      Route ''/docs'' (ComponentCreator ''/docs'' (Some ''792'')) None None (Some [
        Route ''/docs'' (ComponentCreator ''/docs'' (Some ''2a7'')) None None (Some [
          Route ''/docs/advanced/performance'' (ComponentCreator ''/docs/advanced/performance'' (Some ''cef'')) (Some True) None None,
          Route ''/docs/advanced/testing'' (ComponentCreator ''/docs/advanced/testing'' (Some ''7ad'')) (Some True) None None,
          Route ''/docs/api'' (ComponentCreator ''/docs/api'' (Some ''a3f'')) (Some True) None None,
          Route ''/docs/api/createApp'' (ComponentCreator ''/docs/api/createApp'' (Some ''090'')) (Some True) (Some ''tutorialSidebar'') None,
          Route ''/docs/api/createComponent'' (ComponentCreator ''/docs/api/createComponent'' (Some ''e73'')) (Some True) (Some ''tutorialSidebar'') None,
          Route ''/docs/api/createOptic'' (ComponentCreator ''/docs/api/createOptic'' (Some ''ae2'')) (Some True) (Some ''tutorialSidebar'') None,
          Route ''/docs/api/overview'' (ComponentCreator ''/docs/api/overview'' (Some ''211'')) (Some True) (Some ''tutorialSidebar'') None,
          Route ''/docs/api/useEffect'' (ComponentCreator ''/docs/api/useEffect'' (Some ''a6d'')) (Some True) (Some ''tutorialSidebar'') None,
          Route ''/docs/api/useFlash'' (ComponentCreator ''/docs/api/useFlash'' (Some ''3ce'')) (Some True) (Some ''tutorialSidebar'') None,
          Route ''/docs/api/useLens'' (ComponentCreator ''/docs/api/useLens'' (Some ''5c2'')) (Some True) (Some ''tutorialSidebar'') None,
          Route ''/docs/api/useOptic'' (ComponentCreator ''/docs/api/useOptic'' (Some ''6b0'')) (Some True) (Some ''tutorialSidebar'') None,
          Route ''/docs/api/useRefraction'' (ComponentCreator ''/docs/api/useRefraction'' (Some ''a76'')) (Some True) (Some ''tutorialSidebar'') None,
          Route ''/docs/concepts/components'' (ComponentCreator ''/docs/concepts/components'' (Some ''749'')) (Some True) (Some ''tutorialSidebar'') None,
          Route ''/docs/concepts/effects'' (ComponentCreator ''/docs/concepts/effects'' (Some ''4d4'')) (Some True) (Some ''tutorialSidebar'') None,
          Route ''/docs/concepts/lenses'' (ComponentCreator ''/docs/concepts/lenses'' (Some ''d44'')) (Some True) (Some ''tutorialSidebar'') None,
          Route ''/docs/concepts/optics'' (ComponentCreator ''/docs/concepts/optics'' (Some ''635'')) (Some True) (Some ''tutorialSidebar'') None,
          Route ''/docs/concepts/refractions'' (ComponentCreator ''/docs/concepts/refractions'' (Some ''319'')) (Some True) (Some ''tutorialSidebar'') None,
          Route ''/docs/concepts/state-management'' (ComponentCreator ''/docs/concepts/state-management'' (Some ''781'')) (Some True) None None,
          Route ''/docs/contributing'' (ComponentCreator ''/docs/contributing'' (Some ''069'')) (Some True) (Some ''tutorialSidebar'') None,
          Route ''/docs/getting-started'' (ComponentCreator ''/docs/getting-started'' (Some ''2a1'')) (Some True) (Some ''tutorialSidebar'') None,
          Route ''/docs/installation'' (ComponentCreator ''/docs/installation'' (Some ''176'')) (Some True) None None,
          Route ''/docs/intro'' (ComponentCreator ''/docs/intro'' (Some ''61d'')) (Some True) (Some ''tutorialSidebar'') None,
          Route ''/docs/tutorials/animation-basics'' (ComponentCreator ''/docs/tutorials/animation-basics'' (Some ''270'')) (Some True) (Some ''tutorialSidebar'') None,
          Route ''/docs/tutorials/counter-app'' (ComponentCreator ''/docs/tutorials/counter-app'' (Some ''680'')) (Some True) (Some ''tutorialSidebar'') None,
          Route ''/docs/tutorials/getting-started'' (ComponentCreator ''/docs/tutorials/getting-started'' (Some ''1ff'')) (Some True) None None,
          Route ''/docs/tutorials/global-theme'' (ComponentCreator ''/docs/tutorials/global-theme'' (Some ''a07'')) (Some True) (Some ''tutorialSidebar'') None,
          Route ''/docs/tutorials/todo-list'' (ComponentCreator ''/docs/tutorials/todo-list'' (Some ''447'')) (Some True) (Some ''tutorialSidebar'') None])])]),
    Route ''/'' (ComponentCreator ''/'' (Some ''2e1'')) (Some True) None None,
    Route ''*'' (ComponentCreator ''*'' None) None None None]"

text \<open>
  The default export of the second generated route table of the repository (a later build
  with more blog and documentation pages).
\<close>

definition routes_part_000 :: "route list" where
  "routes_part_000 = [
    Route ''/blog'' (ComponentCreator ''/blog'' (Some ''04d'')) (Some True) None None,
    Route ''/blog/archive'' (ComponentCreator ''/blog/archive'' (Some ''182'')) (Some True) None None,
    Route ''/blog/authors'' (ComponentCreator ''/blog/authors'' (Some ''0b7'')) (Some True) None None,
    Route ''/blog/authors/all-sebastien-lorber-articles'' (ComponentCreator ''/blog/authors/all-sebastien-lorber-articles'' (Some ''4a1'')) (Some True) None None,
    Route ''/blog/authors/yangshun'' (ComponentCreator ''/blog/authors/yangshun'' (Some ''a68'')) (Some True) None None,
    Route ''/blog/first-blog-post'' (ComponentCreator ''/blog/first-blog-post'' (Some ''89a'')) (Some True) None None,
    Route ''/blog/introducing-refract'' (ComponentCreator ''/blog/introducing-refract'' (Some ''261'')) (Some True) None None,
    Route ''/blog/long-blog-post'' (ComponentCreator ''/blog/long-blog-post'' (Some ''9ad'')) (Some True) None None,
    Route ''/blog/mdx-blog-post'' (ComponentCreator ''/blog/mdx-blog-post'' (Some ''e9f'')) (Some True) None None,
    Route ''/blog/performance-optimization-guide'' (ComponentCreator ''/blog/performance-optimization-guide'' (Some ''360'')) (Some True) None None,
    Route ''/blog/tags'' (ComponentCreator ''/blog/tags'' (Some ''287'')) (Some True) None None,
    Route ''/blog/tags/advanced'' (ComponentCreator ''/blog/tags/advanced'' (Some ''e70'')) (Some True) None None,
    Route ''/blog/tags/announcement'' (ComponentCreator ''/blog/tags/announcement'' (Some ''3d6'')) (Some True) None None,
    Route ''/blog/tags/best-practices'' (ComponentCreator ''/blog/tags/best-practices'' (Some ''699'')) (Some True) None None,
    Route ''/blog/tags/docusaurus'' (ComponentCreator ''/blog/tags/docusaurus'' (Some ''704'')) (Some True) None None,
    Route ''/blog/tags/facebook'' (ComponentCreator ''/blog/tags/facebook'' (Some ''858'')) (Some True) None None,
    Route ''/blog/tags/hello'' (ComponentCreator ''/blog/tags/hello'' (Some ''299'')) (Some True) None None,
    Route ''/blog/tags/hola'' (ComponentCreator ''/blog/tags/hola'' (Some ''00d'')) (Some True) None None,
    Route ''/blog/tags/javascript'' (ComponentCreator ''/blog/tags/javascript'' (Some ''fcb'')) (Some True) None None,
    Route ''/blog/tags/optimization'' (ComponentCreator ''/blog/tags/optimization'' (Some ''09c'')) (Some True) None None,
    Route ''/blog/tags/performance'' (ComponentCreator ''/blog/tags/performance'' (Some ''93a'')) (Some True) None None,
    Route ''/blog/tags/reactive'' (ComponentCreator ''/blog/tags/reactive'' (Some ''390'')) (Some True) None None,
    Route ''/blog/tags/ui'' (ComponentCreator ''/blog/tags/ui'' (Some ''1e9'')) (Some True) None None,
    Route ''/blog/welcome'' (ComponentCreator ''/blog/welcome'' (Some ''d2b'')) (Some True) None None,
    Route ''/markdown-page'' (ComponentCreator ''/markdown-page'' (Some ''3d7'')) (Some True) None None,
    Route ''/search'' (ComponentCreator ''/search'' (Some ''822'')) (Some True) None None,
    Route ''/docs'' (ComponentCreator ''/docs'' (Some ''a56'')) None None (Some [
      Route ''/docs'' (ComponentCreator ''/docs'' (Some ''927'')) None None (Some [
        Route ''/docs'' (ComponentCreator ''/docs'' (Some ''2a1'')) None None (Some [
          Route ''/docs/advanced/performance'' (ComponentCreator ''/docs/advanced/performance'' (Some ''cef'')) (Some True) None None,
          Route ''/docs/advanced/testing'' (ComponentCreator ''/docs/advanced/testing'' (Some ''7ad'')) (Some True) None None,
          Route ''/docs/api'' (ComponentCreator ''/docs/api'' (Some ''a3f'')) (Some True) None None,
          Route ''/docs/api/createApp'' (ComponentCreator ''/docs/api/createApp'' (Some ''090'')) (Some True) (Some ''tutorialSidebar'') None,
          Route ''/docs/api/createComponent'' (ComponentCreator ''/docs/api/createComponent'' (Some ''e73'')) (Some True) (Some ''tutorialSidebar'') None,
          Route ''/docs/api/createOptic'' (ComponentCreator ''/docs/api/createOptic'' (Some ''ae2'')) (Some True) (Some ''tutorialSidebar'') None,
          Route ''/docs/api/overview'' (ComponentCreator ''/docs/api/overview'' (Some ''211'')) (Some True) (Some ''tutorialSidebar'') None,
          Route ''/docs/api/useEffect'' (ComponentCreator ''/docs/api/useEffect'' (Some ''a6d'')) (Some True) (Some ''tutorialSidebar'') None,
          Route ''/docs/api/useFlash'' (ComponentCreator ''/docs/api/useFlash'' (Some ''3ce'')) (Some True) (Some ''tutorialSidebar'') None,
          Route ''/docs/api/useLens'' (ComponentCreator ''/docs/api/useLens'' (Some ''5c2'')) (Some True) (Some ''tutorialSidebar'') None,
          Route ''/docs/api/useOptic'' (ComponentCreator ''/docs/api/useOptic'' (Some ''6b0'')) (Some True) (Some ''tutorialSidebar'') None,
          Route ''/docs/api/useRefraction'' (ComponentCreator ''/docs/api/useRefraction'' (Some ''a76'')) (Some True) (Some ''tutorialSidebar'') None,
          Route ''/docs/concepts/components'' (ComponentCreator ''/docs/concepts/components'' (Some ''749'')) (Some True) (Some ''tutorialSidebar'') None,
          Route ''/docs/concepts/effects'' (ComponentCreator ''/docs/concepts/effects'' (Some ''4d4'')) (Some True) (Some ''tutorialSidebar'') None,
          Route ''/docs/concepts/lenses'' (ComponentCreator ''/docs/concepts/lenses'' (Some ''d44'')) (Some True) (Some ''tutorialSidebar'') None,
          Route ''/docs/concepts/optics'' (ComponentCreator ''/docs/concepts/optics'' (Some ''635'')) (Some True) (Some ''tutorialSidebar'') None,
          Route ''/docs/concepts/refractions'' (ComponentCreator ''/docs/concepts/refractions'' (Some ''319'')) (Some True) (Some ''tutorialSidebar'') None,
          Route ''/docs/concepts/state-management'' (ComponentCreator ''/docs/concepts/state-management'' (Some ''781'')) (Some True) None None,
          Route ''/docs/contributing'' (ComponentCreator ''/docs/contributing'' (Some ''069'')) (Some True) (Some ''tutorialSidebar'') None,
          Route ''/docs/developers/api-overview'' (ComponentCreator ''/docs/developers/api-overview'' (Some ''dd6'')) (Some True) None None,
          Route ''/docs/developers/authentication'' (ComponentCreator ''/docs/developers/authentication'' (Some ''fe3'')) (Some True) None None,
          Route ''/docs/developers/endpoints'' (ComponentCreator ''/docs/developers/endpoints'' (Some ''e85'')) (Some True) None None,
          Route ''/docs/developers/integration-guide'' (ComponentCreator ''/docs/developers/integration-guide'' (Some ''a75'')) (Some True) None None,
          Route ''/docs/developers/webhooks'' (ComponentCreator ''/docs/developers/webhooks'' (Some ''7fc'')) (Some True) None None,
          Route ''/docs/faqs/general'' (ComponentCreator ''/docs/faqs/general'' (Some ''10c'')) (Some True) None None,
          Route ''/docs/faqs/troubleshooting'' (ComponentCreator ''/docs/faqs/troubleshooting'' (Some ''a6f'')) (Some True) None None,
          Route ''/docs/features/api-access'' (ComponentCreator ''/docs/features/api-access'' (Some ''8d9'')) (Some True) None None,
          Route ''/docs/features/dashboard'' (ComponentCreator ''/docs/features/dashboard'' (Some ''8d2'')) (Some True) None None,
          Route ''/docs/features/realtime-feedback'' (ComponentCreator ''/docs/features/realtime-feedback'' (Some ''d66'')) (Some True) None None,
          Route ''/docs/getting-started'' (ComponentCreator ''/docs/getting-started'' (Some ''2a1'')) (Some True) (Some ''tutorialSidebar'') None,
          Route ''/docs/getting-started/installation'' (ComponentCreator ''/docs/getting-started/installation'' (Some ''2f7'')) (Some True) None None,
          Route ''/docs/getting-started/quick-tour'' (ComponentCreator ''/docs/getting-started/quick-tour'' (Some ''365'')) (Some True) None None,
          Route ''/docs/installation'' (ComponentCreator ''/docs/installation'' (Some ''176'')) (Some True) None None,
          Route ''/docs/intro'' (ComponentCreator ''/docs/intro'' (Some ''61d'')) (Some True) (Some ''tutorialSidebar'') None,
          Route ''/docs/Introduction/faq'' (ComponentCreator ''/docs/Introduction/faq'' (Some ''864'')) (Some True) None None,
          Route ''/docs/Introduction/getting-started'' (ComponentCreator ''/docs/Introduction/getting-started'' (Some ''166'')) (Some True) None None,
          Route ''/docs/Introduction/overview'' (ComponentCreator ''/docs/Introduction/overview'' (Some ''213'')) (Some True) None None,
          Route ''/docs/tutorials/animation-basics'' (ComponentCreator ''/docs/tutorials/animation-basics'' (Some ''270'')) (Some True) (Some ''tutorialSidebar'') None,
          Route ''/docs/tutorials/counter-app'' (ComponentCreator ''/docs/tutorials/counter-app'' (Some ''680'')) (Some True) (Some ''tutorialSidebar'') None,
          Route ''/docs/tutorials/getting-started'' (ComponentCreator ''/docs/tutorials/getting-started'' (Some ''1ff'')) (Some True) None None,
          Route ''/docs/tutorials/global-theme'' (ComponentCreator ''/docs/tutorials/global-theme'' (Some ''a07'')) (Some True) (Some ''tutorialSidebar'') None,
          Route ''/docs/tutorials/todo-list'' (ComponentCreator ''/docs/tutorials/todo-list'' (Some ''447'')) (Some True) (Some ''tutorialSidebar'') None])])]),
    Route ''/'' (ComponentCreator ''/'' (Some ''2e1'')) (Some True) None None,
    Route ''*'' (ComponentCreator ''*'' None) None None None]"

subsection \<open>Walking the route tree\<close>

text \<open>A node followed by all its descendants, in the order of the module's text.\<close>

fun all_nodes :: "route \<Rightarrow> route list" where
  "all_nodes (Route p c e s None) = [Route p c e s None]"
| "all_nodes (Route p c e s (Some rs)) = Route p c e s (Some rs) # concat (map all_nodes rs)"

definition table_nodes :: "route list \<Rightarrow> route list" where
  "table_nodes table = concat (map all_nodes table)"

text \<open>A record marked \<^verbatim>\<open>exact: true\<close>; a record whose path is the wildcard.\<close>

definition is_exact :: "route \<Rightarrow> bool" where
  "is_exact r = (exact r = Some True)"

definition is_wildcard :: "route \<Rightarrow> bool" where
  "is_wildcard r = (path r = ''*'')"

definition exact_records :: "route list \<Rightarrow> route list" where
  "exact_records table = filter is_exact (table_nodes table)"

text \<open>\<open>starts_with s q\<close>: the string \<open>s\<close> begins with \<open>q\<close>.\<close>

definition starts_with :: "string \<Rightarrow> string \<Rightarrow> bool" where
  "starts_with s q = (take (length q) s = q)"

subsection \<open>Route resolution\<close>

text \<open>
  Modelled from the spec: the route resolver is the client-side router of the site
  generator, which is not part of the repository; the repository holds only the tables the
  router reads. The definitions of this subsection follow the resolver's contract in the
  specification (section 4.1):
  \<^item> an exact node matches only the identical path;
  \<^item> a non-exact (prefix) node matches every path that shares its prefix up to the next
    path segment boundary, and resolution descends into its \<open>routes\<close> children to find
    the deepest matching leaf;
  \<^item> a more specific match (exact, or deeper) wins over a shallower prefix match;
  \<^item> the wildcard node \<^verbatim>\<open>'*'\<close> matches any path that nothing else matches.
  \<open>None\<close> is the outcome "no match and no fallback".
\<close>

text \<open>
  Modelled from the spec: a prefix node matches "any path sharing their prefix up to the
  next path segment boundary". \<open>seg_prefix q p\<close>: \<open>p\<close> starts with \<open>q\<close>, and \<open>q\<close>
  ends where a segment of \<open>p\<close> ends.
\<close>

definition seg_prefix :: "string \<Rightarrow> string \<Rightarrow> bool" where
  "seg_prefix q p =
     (starts_with p q \<and>
      (length p = length q \<or> p ! length q = CHR ''/'' \<or> (q \<noteq> [] \<and> last q = CHR ''/'')))"

text \<open>
  Modelled from the spec: "exact-match nodes match only identical paths; non-exact (prefix)
  nodes match any path sharing their prefix".
\<close>

definition node_matches :: "route \<Rightarrow> string \<Rightarrow> bool" where
  "node_matches r p = (if is_exact r then path r = p else seg_prefix (path r) p)"

text \<open>
  Modelled from the spec: "recursively descending into \<open>routes\<close> children to find the
  deepest matching leaf". \<open>matches d p r\<close> lists the non-wildcard page records that match
  \<open>p\<close> below the node \<open>r\<close> of depth \<open>d\<close>, each with its depth in the tree, in table
  order. A matching node without children is a page record; a matching node with children
  is a layout wrapper and contributes what its children match.
\<close>

fun matches :: "nat \<Rightarrow> string \<Rightarrow> route \<Rightarrow> (nat \<times> route) list" where
  "matches d p (Route q c e s rs) =
     (if is_wildcard (Route q c e s rs) \<or> \<not> node_matches (Route q c e s rs) p then []
      else case rs of
        None \<Rightarrow> [(d, Route q c e s rs)]
      | Some kids \<Rightarrow> concat (map (matches (Suc d) p) kids))"

text \<open>Modelled from the spec: the candidates of a whole table, in table order.\<close>

definition candidates :: "route list \<Rightarrow> string \<Rightarrow> (nat \<times> route) list" where
  "candidates table p = concat (map (matches 0 p) table)"

text \<open>
  Modelled from the spec: "more specific (deeper / exact) matches win over shallower prefix
  matches". \<open>more_specific a b\<close>: candidate \<open>a\<close> wins over candidate \<open>b\<close>. An
  exact match wins over a prefix match; between two matches of the same kind the deeper
  one wins.
\<close>

definition more_specific :: "nat \<times> route \<Rightarrow> nat \<times> route \<Rightarrow> bool" where
  "more_specific a b =
     ((is_exact (snd a) \<and> \<not> is_exact (snd b)) \<or>
      (is_exact (snd a) = is_exact (snd b) \<and> fst b < fst a))"

text \<open>
  Modelled from the spec: the most specific candidate; among equally specific ones the
  first in table order.
\<close>

fun best :: "(nat \<times> route) list \<Rightarrow> (nat \<times> route) option" where
  "best [] = None"
| "best (c # cs) =
     (case best cs of
        None \<Rightarrow> Some c
      | Some b \<Rightarrow> if more_specific b c then Some b else Some c)"

text \<open>
  Modelled from the spec: the resolver returns the most specific matching page record; "a
  wildcard fallback node (\<^verbatim>\<open>path: '*'\<close>) matches any otherwise-unmatched path".
\<close>

definition resolve :: "route list \<Rightarrow> string \<Rightarrow> route option" where
  "resolve table p =
     (case best (candidates table p) of
        Some c \<Rightarrow> Some (snd c)
      | None \<Rightarrow> find is_wildcard table)"

subsection \<open>Invariants of a route table\<close>

text \<open>
  The shape of a node: without a \<open>routes\<close> array it carries \<^verbatim>\<open>exact: true\<close>, with one
  it carries no \<open>exact\<close> key.
\<close>

definition shape_ok :: "route \<Rightarrow> bool" where
  "shape_ok r =
     (case routes r of
        None \<Rightarrow> exact r = Some True
      | Some kids \<Rightarrow> exact r = None)"

text \<open>Every child's path starts with its parent's path, at every level of the tree.\<close>

fun prefix_nested :: "route \<Rightarrow> bool" where
  "prefix_nested (Route p c e s None) = True"
| "prefix_nested (Route p c e s (Some kids)) =
     list_all (\<lambda>k. starts_with (path k) p \<and> prefix_nested k) kids"

text \<open>
  A node with children is a layout wrapper: it is neither exact nor the wildcard, and its
  path is a segment prefix of the path of every node below it.
\<close>

fun well_nested :: "route \<Rightarrow> bool" where
  "well_nested (Route q c e s None) = True"
| "well_nested (Route q c e s (Some kids)) =
     (q \<noteq> ''*'' \<and> e \<noteq> Some True \<and>
      list_all (\<lambda>k. well_nested k \<and> list_all (\<lambda>n. seg_prefix q (path n)) (all_nodes k)) kids)"

text \<open>
  The page records are the exact ones: an exact node has no children and is not the
  wildcard, and every other node has children or is the wildcard.
\<close>

definition page_shape :: "route \<Rightarrow> bool" where
  "page_shape n =
     (if is_exact n then \<not> is_wildcard n \<and> routes n = None
      else routes n \<noteq> None \<or> is_wildcard n)"

text \<open>
  The three conditions under which every exact record of a table is found under its own
  path: distinct exact paths, page shape at every node, well-nested top-level records.
\<close>

definition resolvable_table :: "route list \<Rightarrow> bool" where
  "resolvable_table table =
     (distinct (map path (exact_records table)) \<and>
      list_all page_shape (table_nodes table) \<and>
      list_all well_nested table)"

section \<open>Sidebar configuration\<close>

text \<open>
  \<^verbatim>\<open>sidebars.js\<close> exports one sidebar, \<^verbatim>\<open>tutorialSidebar\<close>: an ordered list whose
  entries are either a content identifier (a string) or a category object
  \<^verbatim>\<open>{ type: 'category', label, items }\<close>.
\<close>

datatype sidebar_item =
  Doc string
| Category (label: string) (items: "sidebar_item list")

definition tutorialSidebar :: "sidebar_item list" where
  "tutorialSidebar = [
    Doc ''intro'',
    Doc ''getting-started'',
    Category ''Core Concepts'' [
      Doc ''concepts/components'',
      Doc ''concepts/refractions'',
      Doc ''concepts/lenses'',
      Doc ''concepts/optics'',
      Doc ''concepts/effects''],
    Category ''API Reference'' [
      Doc ''api/overview'',
      Doc ''api/createApp'',
      Doc ''api/createComponent'',
      Doc ''api/useRefraction'',
      Doc ''api/useEffect'',
      Doc ''api/useOptic'',
      Doc ''api/useFlash'',
      Doc ''api/useLens''],
    Category ''Tutorials'' [
      Doc ''tutorials/counter-app'',
      Doc ''tutorials/todo-list'',
      Doc ''tutorials/global-theme'',
      Doc ''tutorials/animation-basics''],
    Doc ''contributing'']"

definition sidebars :: "(string \<times> sidebar_item list) list" where
  "sidebars = [(''tutorialSidebar'', tutorialSidebar)]"

text \<open>The content identifiers at the leaves of an item, in display order.\<close>

fun leaf_ids :: "sidebar_item \<Rightarrow> string list" where
  "leaf_ids (Doc d) = [d]"
| "leaf_ids (Category l its) = concat (map leaf_ids its)"

text \<open>The category nodes of an item: the item itself when it is one, and those below it.\<close>

fun categories :: "sidebar_item \<Rightarrow> sidebar_item list" where
  "categories (Doc d) = []"
| "categories (Category l its) = Category l its # concat (map categories its)"

text \<open>A category is well formed: it has items, and no leaf identifier twice below it.\<close>

fun category_ok :: "sidebar_item \<Rightarrow> bool" where
  "category_ok (Doc d) = True"
| "category_ok (Category l its) = (its \<noteq> [] \<and> distinct (leaf_ids (Category l its)))"

subsection \<open>Sidebar tree walker\<close>

text \<open>
  Modelled from the spec: the walker that locates a page in the sidebar belongs to the site
  generator's theme and is not part of the repository. By the specification (section 4.2)
  it takes a content identifier and returns the path from the tree root to the matching
  leaf, as the list of category labels, together with the leaf's immediate siblings for
  previous/next navigation. Here the siblings are the entries next to the leaf in the
  \<open>items\<close> list that holds it. \<open>None\<close>: the identifier is not in the tree.
\<close>

text \<open>Modelled from the spec: what the walker returns for a leaf.\<close>

record position =
  ancestors :: "string list"
  prev_sibling :: "sidebar_item option"
  next_sibling :: "sidebar_item option"

text \<open>
  Modelled from the spec: \<open>walk chain passed rest t\<close> searches \<open>rest\<close> in display order, depth first;
  \<open>chain\<close> holds the labels from the root down to the list being searched and
  \<open>passed\<close> the entries of that list already passed, the nearest first.
\<close>

fun walk :: "string list \<Rightarrow> sidebar_item list \<Rightarrow> sidebar_item list \<Rightarrow> string \<Rightarrow> position option" where
  "walk chain passed [] t = None"
| "walk chain passed (Doc d # rest) t =
     (if d = t
      then Some \<lparr>ancestors = chain,
                 prev_sibling = (case passed of [] \<Rightarrow> None | b # _ \<Rightarrow> Some b),
                 next_sibling = (case rest of [] \<Rightarrow> None | n # _ \<Rightarrow> Some n)\<rparr>
      else walk chain (Doc d # passed) rest t)"
| "walk chain passed (Category l its # rest) t =
     (case walk (chain @ [l]) [] its t of
        Some pos \<Rightarrow> Some pos
      | None \<Rightarrow> walk chain (Category l its # passed) rest t)"

text \<open>Modelled from the spec: the walk from the root of a sidebar.\<close>

definition locate :: "sidebar_item list \<Rightarrow> string \<Rightarrow> position option" where
  "locate tree t = walk [] [] tree t"

text \<open>Modelled from the spec: the immediate siblings of a located leaf.\<close>

definition siblings :: "position \<Rightarrow> sidebar_item list" where
  "siblings pos =
     (case prev_sibling pos of None \<Rightarrow> [] | Some b \<Rightarrow> [b]) @
     (case next_sibling pos of None \<Rightarrow> [] | Some n \<Rightarrow> [n])"

section \<open>Site configuration\<close>

text \<open>
  The top-level scalar options of the two \<^verbatim>\<open>docusaurus.config.js\<close> variants in the
  repository (the \<open>presets\<close>, \<open>plugins\<close> and \<open>themeConfig\<close> objects are left out). An
  option that a variant does not set is \<open>None\<close>.
\<close>

record site_config =
  title :: string
  tagline :: string
  favicon :: string
  url :: string
  baseUrl :: string
  organizationName :: string
  projectName :: string
  onBrokenLinks :: string
  onBrokenMarkdownLinks :: string
  trailingSlash :: "bool option"
  defaultLocale :: string
  locales :: "string list"

text \<open>The main configuration (deployed at the Netlify address).\<close>

definition config_main :: site_config where
  "config_main = \<lparr>
     title = ''Refract'',
     tagline = ''A reactive, composable JavaScript framework for building modern UIs'',
     favicon = ''img/favicon.ico'',
     url = ''https://refract-docs.netlify.app'',
     baseUrl = ''/'',
     organizationName = ''refract-js'',
     projectName = ''refract'',
     onBrokenLinks = ''throw'',
     onBrokenMarkdownLinks = ''warn'',
     trailingSlash = None,
     defaultLocale = ''en'',
     locales = [''en'']\<rparr>"

text \<open>The alternate configuration variant (deployed at the Vercel address).\<close>

definition config_alternate :: site_config where
  "config_alternate = \<lparr>
     title = ''Refract'',
     tagline = ''A reactive, composable JavaScript framework for building modern UIs'',
     favicon = ''img/favicon.ico'',
     url = ''https://refract-documentation-i7fkgvid5-samuel-bensos-projects.vercel.app'',
     baseUrl = ''/'',
     organizationName = ''refract-js'',
     projectName = ''refract'',
     onBrokenLinks = ''warn'',
     onBrokenMarkdownLinks = ''warn'',
     trailingSlash = Some False,
     defaultLocale = ''en'',
     locales = [''en'']\<rparr>"

section \<open>Content front matter\<close>

text \<open>
  A content file starts with a YAML block. Its values are strings, sequences and mappings;
  a mapping keeps the order of its keys.
\<close>

datatype yaml =
  YStr string
| YSeq "yaml list"
| YMap "(string \<times> yaml) list"

text \<open>The front matter of the blog post that introduces the framework.\<close>

definition introducing_refract_front_matter :: "(string \<times> yaml) list" where
  "introducing_refract_front_matter = [
     (''slug'', YStr ''introducing-refract''),
     (''title'', YStr ''Introducing Refract - A New Era of Reactive UI Development''),
     (''authors'', YSeq [YMap [
        (''name'', YStr ''Refract Team''),
        (''title'', YStr ''Core Development Team''),
        (''url'', YStr ''https://github.com/refract-js''),
        (''image_url'', YStr ''/img/logo.svg'')]]),
     (''tags'', YSeq [YStr ''announcement'', YStr ''reactive'', YStr ''javascript'', YStr ''ui''])]"

text \<open>The string a front matter declares under a key, when it declares one.\<close>

definition front_matter_string :: "(string \<times> yaml) list \<Rightarrow> string \<Rightarrow> string option" where
  "front_matter_string fm k =
     (case map_of fm k of Some (YStr v) \<Rightarrow> Some v | _ \<Rightarrow> None)"

text \<open>
  Modelled from the spec: the generator that turns content files into route records is an
  external build tool, not part of the repository. By the specification (section 8) a file
  under the blog content root that declares \<^verbatim>\<open>slug: s\<close> is given the route path
  \<^verbatim>\<open>/blog/s\<close>.
\<close>

definition blog_route_path :: "string \<Rightarrow> string" where
  "blog_route_path slug = ''/blog/'' @ slug"

text \<open>A table holds a record \<^verbatim>\<open>{ path: p, exact: true }\<close> at its top level.\<close>

definition has_exact_record :: "route list \<Rightarrow> string \<Rightarrow> bool" where
  "has_exact_record table p = list_ex (\<lambda>r. path r = p \<and> exact r = Some True) table"

section \<open>Properties\<close>

subsection \<open>Auxiliary facts\<close>

lemma filter_as_concat: "filter P xs = concat (map (\<lambda>x. if P x then [x] else []) xs)"
  by (induction xs) simp_all

lemma exact_paths_eq:
  "map path (exact_records T) =
   concat (map (\<lambda>r. if exact r = Some True then [path r] else []) (table_nodes T))"
  by (simp add: exact_records_def is_exact_def filter_as_concat map_concat comp_def if_distrib
      cong: if_cong)

lemma best_eq_None: "best cs = None \<longleftrightarrow> cs = []"
  by (induction cs) (auto split: option.splits)

lemma best_in_set: "best cs = Some c \<Longrightarrow> c \<in> set cs"
  by (induction cs arbitrary: c) (auto split: option.splits if_splits)

lemma best_single: "best [c] = Some c"
  by simp

text \<open>What \<open>matches\<close> returns are page records of the tree that match the path.\<close>

lemma matches_sound:
  "(k, n) \<in> set (matches d p r) \<Longrightarrow>
   n \<in> set (all_nodes r) \<and> routes n = None \<and> \<not> is_wildcard n \<and> node_matches n p"
proof (induction d p r arbitrary: k n rule: matches.induct)
  case (1 d p q c e s rs)
  let ?r = "Route q c e s rs"
  from "1.prems" have ok: "\<not> (is_wildcard ?r \<or> \<not> node_matches ?r p)"
    by (auto split: if_splits)
  show ?case
  proof (cases rs)
    case None
    with "1.prems" ok show ?thesis by (auto split: if_splits)
  next
    case (Some kids)
    with "1.prems" ok obtain kid where kid: "kid \<in> set kids"
      and mem: "(k, n) \<in> set (matches (Suc d) p kid)"
      by (auto split: if_splits)
    from "1.IH" [OF ok Some kid mem] Some kid show ?thesis by auto
  qed
qed

lemma candidates_sound:
  assumes "(k, n) \<in> set (candidates T p)"
  shows "n \<in> set (table_nodes T) \<and> routes n = None \<and> \<not> is_wildcard n \<and> node_matches n p"
proof -
  from assms obtain r where "r \<in> set T" and "(k, n) \<in> set (matches 0 p r)"
    by (auto simp: candidates_def)
  with matches_sound [of k n 0 p r] show ?thesis
    by (auto simp: table_nodes_def)
qed

text \<open>The candidates come in the order of the table and none is listed twice.\<close>

lemma subseq_concat_map:
  "(\<And>x. x \<in> set xs \<Longrightarrow> subseq (f x) (g x)) \<Longrightarrow> subseq (concat (map f xs)) (concat (map g xs))"
  by (induction xs) (auto intro: list_emb_append_mono)

lemma matches_subseq: "subseq (map snd (matches d p r)) (all_nodes r)"
proof (induction d p r rule: matches.induct)
  case (1 d p q c e s rs)
  let ?r = "Route q c e s rs"
  show ?case
  proof (cases "is_wildcard ?r \<or> \<not> node_matches ?r p")
    case True
    then show ?thesis by simp
  next
    case False
    show ?thesis
    proof (cases rs)
      case None
      with False show ?thesis by simp
    next
      case (Some kids)
      have "subseq (concat (map (\<lambda>k. map snd (matches (Suc d) p k)) kids))
              (concat (map all_nodes kids))"
        by (rule subseq_concat_map) (rule "1.IH" [OF False Some])
      then have "subseq (map snd (concat (map (matches (Suc d) p) kids)))
              (?r # concat (map all_nodes kids))"
        by (simp add: map_concat comp_def list_emb_Cons)
      with False Some show ?thesis by simp
    qed
  qed
qed

lemma candidates_subseq: "subseq (map snd (candidates T p)) (table_nodes T)"
  unfolding candidates_def table_nodes_def
  using subseq_concat_map [of T "\<lambda>r. map snd (matches 0 p r)" all_nodes]
  by (simp add: map_concat comp_def matches_subseq)

lemma subseq_in_set: "subseq xs ys \<Longrightarrow> x \<in> set xs \<Longrightarrow> x \<in> set ys"
  by (erule list_emb_set) auto

lemma subseq_distinct: "subseq xs ys \<Longrightarrow> distinct ys \<Longrightarrow> distinct xs"
proof (induction rule: list_emb.induct)
  case (list_emb_Cons2 x y xs ys)
  then have "x \<notin> set xs" using subseq_in_set [of xs ys x] by auto
  with list_emb_Cons2 show ?case by simp
qed simp_all

lemma constant_distinct_short:
  "distinct xs \<Longrightarrow> (\<And>x. x \<in> set xs \<Longrightarrow> x = a) \<Longrightarrow> length xs \<le> 1"
  by (cases xs; cases "tl xs") auto

text \<open>Below a well-nested node every exact page record is found under its own path.\<close>

lemma well_nested_reaches:
  "well_nested r \<Longrightarrow> n \<in> set (all_nodes r) \<Longrightarrow> routes n = None \<Longrightarrow> is_exact n \<Longrightarrow>
   \<not> is_wildcard n \<Longrightarrow> \<exists>k. (k, n) \<in> set (matches d (path n) r)"
proof (induction r arbitrary: d rule: well_nested.induct)
  case (1 q c e s)
  then have "n = Route q c e s None" by simp
  with 1 show ?case by (auto simp: node_matches_def)
next
  case (2 q c e s kids)
  let ?r = "Route q c e s (Some kids)"
  from "2.prems" obtain kid where kid: "kid \<in> set kids" and below: "n \<in> set (all_nodes kid)"
    by auto
  from "2.prems"(1) kid below have wn: "well_nested kid" and sp: "seg_prefix q (path n)"
    by (auto simp: list_all_iff)
  from "2.prems"(1) have open_node: "\<not> is_wildcard ?r" "\<not> is_exact ?r"
    by (auto simp: is_wildcard_def is_exact_def)
  with sp have m: "node_matches ?r (path n)"
    by (simp add: node_matches_def)
  from "2.IH" [OF kid wn below "2.prems"(3,4,5)] obtain k
    where "(k, n) \<in> set (matches (Suc d) (path n) kid)" by blast
  with kid open_node m have "(k, n) \<in> set (matches d (path n) ?r)"
    by auto
  then show ?case ..
qed

text \<open>
  In a resolvable table the path of an exact record has that record as its only
  candidate, and resolves to it.
\<close>

lemma exact_match_unique:
  assumes ok: "resolvable_table T" and n: "n \<in> set (exact_records T)"
  shows "map snd (candidates T (path n)) = [n]"
proof -
  let ?cs = "map snd (candidates T (path n))"
  from ok have dist: "distinct (map path (exact_records T))"
    and shape: "\<And>m. m \<in> set (table_nodes T) \<Longrightarrow> page_shape m"
    and nested: "\<And>r. r \<in> set T \<Longrightarrow> well_nested r"
    by (auto simp: resolvable_table_def list_all_iff)
  from n have node: "n \<in> set (table_nodes T)" and ex: "is_exact n"
    by (auto simp: exact_records_def)
  from shape [OF node] ex have leaf: "routes n = None" and nw: "\<not> is_wildcard n"
    by (auto simp: page_shape_def)
  from node obtain r where r: "r \<in> set T" and below: "n \<in> set (all_nodes r)"
    by (auto simp: table_nodes_def)
  from well_nested_reaches [OF nested [OF r] below leaf ex nw, of 0] r
  have present: "n \<in> set ?cs"
    by (force simp: candidates_def)
  have exact_all: "is_exact m \<and> path m = path n" if "m \<in> set ?cs" for m
  proof -
    from that obtain k where "(k, m) \<in> set (candidates T (path n))" by auto
    from candidates_sound [OF this] shape [of m] show ?thesis
      by (auto simp: page_shape_def node_matches_def split: if_splits)
  qed
  then have "\<forall>m \<in> set ?cs. is_exact m" by blast
  then have keep: "filter is_exact ?cs = ?cs" by (rule filter_True)
  have "subseq (filter is_exact ?cs) (exact_records T)"
    unfolding exact_records_def by (rule subseq_filter) (rule candidates_subseq)
  then have "subseq ?cs (exact_records T)" unfolding keep .
  then have "subseq (map path ?cs) (map path (exact_records T))" by (rule subseq_map)
  then have "distinct (map path ?cs)" using dist by (rule subseq_distinct)
  moreover have "x = path n" if "x \<in> set (map path ?cs)" for x
  proof -
    from that have "x \<in> path ` set ?cs" by (simp only: set_map)
    then obtain m where "m \<in> set ?cs" and "x = path m" by (rule imageE)
    with exact_all [of m] show ?thesis by (simp only:)
  qed
  ultimately have "length (map path ?cs) \<le> 1" by (rule constant_distinct_short)
  then have "length ?cs \<le> 1" by simp
  with present show ?thesis
    by (cases ?cs; cases "tl ?cs") auto
qed

lemma exact_match_resolves:
  assumes ok: "resolvable_table T" and n: "n \<in> set (exact_records T)"
  shows "resolve T (path n) = Some n"
proof -
  from exact_match_unique [OF ok n] obtain c
    where c: "candidates T (path n) = [c]" and "snd c = n" by auto
  then show ?thesis by (simp add: resolve_def)
qed

text \<open>With a wildcard record at its top level a table resolves every path.\<close>

lemma find_wildcard:
  "find is_wildcard T = Some w \<Longrightarrow> w \<in> set T \<and> is_wildcard w"
  by (auto simp: find_Some_iff)

lemma resolve_cases:
  "resolve T p =
     (if candidates T p = [] then find is_wildcard T
      else Some (snd (the (best (candidates T p)))))"
  by (cases "best (candidates T p)") (auto simp: resolve_def best_eq_None)

lemma resolve_candidate:
  assumes "candidates T p \<noteq> []"
  shows "\<exists>n. resolve T p = Some n \<and> n \<in> set (map snd (candidates T p)) \<and>
     n \<in> set (table_nodes T) \<and> \<not> is_wildcard n \<and> node_matches n p"
proof -
  from assms obtain c where c: "best (candidates T p) = Some c"
    by (cases "best (candidates T p)") (auto simp: best_eq_None)
  then have mem: "(fst c, snd c) \<in> set (candidates T p)" by (simp add: best_in_set)
  from candidates_sound [OF mem] c mem show ?thesis
    by (auto simp: resolve_def intro: rev_image_eqI)
qed

text \<open>A top-level record is a node of its table; children's paths extend their parent's.\<close>

lemma self_node: "r \<in> set (all_nodes r)"
  by (cases r; cases "routes r") auto

lemma top_level_node: "r \<in> set T \<Longrightarrow> r \<in> set (table_nodes T)"
  using self_node by (auto simp: table_nodes_def)

lemma prefix_nested_child:
  "prefix_nested r \<Longrightarrow> n \<in> set (all_nodes r) \<Longrightarrow> routes n = Some kids \<Longrightarrow> k \<in> set kids \<Longrightarrow>
   starts_with (path k) (path n)"
proof (induction r rule: prefix_nested.induct)
  case (1 p c e s)
  then show ?case by simp
next
  case (2 p c e s ks)
  from "2.prems"(2) consider "n = Route p c e s (Some ks)"
    | kid where "kid \<in> set ks" and "n \<in> set (all_nodes kid)"
    by auto
  then show ?case
  proof cases
    case 1
    with "2.prems" show ?thesis by (auto simp: list_all_iff)
  next
    case (2 kid)
    with "2.prems"(1) have "prefix_nested kid" by (simp add: list_all_iff)
    from "2.IH" [OF 2(1) this 2(2) "2.prems"(3,4)] show ?thesis .
  qed
qed

subsection \<open>Facts about the two tables\<close>

lemma exact_paths_distinct_js: "distinct (map path (exact_records routes_js))"
  unfolding exact_paths_eq by (simp add: routes_js_def table_nodes_def)

lemma exact_paths_distinct_part_000: "distinct (map path (exact_records routes_part_000))"
  unfolding exact_paths_eq by (simp add: routes_part_000_def table_nodes_def)

lemma page_shape_js: "list_all page_shape (table_nodes routes_js)"
  by (simp add: routes_js_def table_nodes_def page_shape_def is_exact_def is_wildcard_def)

lemma page_shape_part_000: "list_all page_shape (table_nodes routes_part_000)"
  by (simp add: routes_part_000_def table_nodes_def page_shape_def is_exact_def
      is_wildcard_def)

lemma well_nested_js: "list_all well_nested routes_js"
  by code_simp

lemma well_nested_part_000: "list_all well_nested routes_part_000"
  by code_simp

lemma resolvable_tables:
  assumes "T = routes_js \<or> T = routes_part_000"
  shows "resolvable_table T"
  using assms exact_paths_distinct_js exact_paths_distinct_part_000 page_shape_js
    page_shape_part_000 well_nested_js well_nested_part_000
  unfolding resolvable_table_def by blast

lemma wildcard_found:
  assumes "T = routes_js \<or> T = routes_part_000"
  shows "find is_wildcard T = Some (Route ''*'' (ComponentCreator ''*'' None) None None None)"
proof -
  have "find is_wildcard routes_js =
      Some (Route ''*'' (ComponentCreator ''*'' None) None None None)"
    by code_simp
  moreover have "find is_wildcard routes_part_000 =
      Some (Route ''*'' (ComponentCreator ''*'' None) None None None)"
    by code_simp
  ultimately show ?thesis using assms by blast
qed

lemma shapes_js:
  "list_all (\<lambda>n. if path n = ''*'' then exact n = None \<and> routes n = None else shape_ok n)
     (table_nodes routes_js)"
  by (simp add: routes_js_def table_nodes_def shape_ok_def)

lemma shapes_part_000:
  "list_all (\<lambda>n. if path n = ''*'' then exact n = None \<and> routes n = None else shape_ok n)
     (table_nodes routes_part_000)"
  by (simp add: routes_part_000_def table_nodes_def shape_ok_def)

lemma prefix_nested_js: "list_all prefix_nested routes_js"
  by (simp add: routes_js_def starts_with_def)

lemma prefix_nested_part_000: "list_all prefix_nested routes_part_000"
  by (simp add: routes_part_000_def starts_with_def)

lemma docs_descendants_js:
  "list_all (\<lambda>r. path r \<noteq> ''/docs'' \<or> list_all (\<lambda>n. starts_with (path n) ''/docs'') (all_nodes r))
     routes_js"
  by (simp add: routes_js_def starts_with_def)

lemma docs_descendants_part_000:
  "list_all (\<lambda>r. path r \<noteq> ''/docs'' \<or> list_all (\<lambda>n. starts_with (path n) ''/docs'') (all_nodes r))
     routes_part_000"
  by (simp add: routes_part_000_def starts_with_def)

subsection \<open>Route resolution\<close>

text \<open>
  C1. Exact-match determinism. In each of the two route tables, resolving the path of a
  record marked \<^verbatim>\<open>exact: true\<close> returns exactly that record, and that record is the only
  candidate the matching policy finds for the path.
\<close>

theorem exact_match_determinism:
  assumes "T = routes_js \<or> T = routes_part_000"
    and "n \<in> set (exact_records T)"
  shows "resolve T (path n) = Some n \<and> map snd (candidates T (path n)) = [n]"
  using exact_match_resolves [OF resolvable_tables [OF assms(1)] assms(2)]
    exact_match_unique [OF resolvable_tables [OF assms(1)] assms(2)]
  by (rule conjI)

theorem exact_match_determinism_witness:
  "Route ''/docs/intro'' (ComponentCreator ''/docs/intro'' (Some ''61d'')) (Some True)
      (Some ''tutorialSidebar'') None \<in> set (exact_records routes_js) \<and>
   resolve routes_js ''/docs/intro'' =
     Some (Route ''/docs/intro'' (ComponentCreator ''/docs/intro'' (Some ''61d'')) (Some True)
       (Some ''tutorialSidebar'') None) \<and>
   map snd (candidates routes_js ''/docs/intro'') =
     [Route ''/docs/intro'' (ComponentCreator ''/docs/intro'' (Some ''61d'')) (Some True)
       (Some ''tutorialSidebar'') None]"
proof -
  let ?n = "Route ''/docs/intro'' (ComponentCreator ''/docs/intro'' (Some ''61d'')) (Some True)
      (Some ''tutorialSidebar'') None"
  have "?n \<in> set (table_nodes routes_js)"
    by (simp add: routes_js_def table_nodes_def)
  then have mem: "?n \<in> set (exact_records routes_js)"
    by (simp only: exact_records_def set_filter is_exact_def mem_Collect_eq route.sel simp_thms)
  have "routes_js = routes_js \<or> routes_js = routes_part_000" by (rule disjI1) (rule refl)
  from exact_match_determinism [OF this mem] mem show ?thesis
    by (simp only: route.sel simp_thms)
qed

text \<open>
  C2. Wildcard totality. Over each of the two route tables resolution always produces a
  record of the table: when some non-wildcard record matches the path, the result is such
  a record; otherwise resolution falls through to the \<^verbatim>\<open>'*'\<close> record. The outcome "no
  result" is never reached.
\<close>

theorem resolution_total:
  assumes "T = routes_js \<or> T = routes_part_000"
  shows "\<exists>n. resolve T p = Some n \<and> n \<in> set (table_nodes T) \<and>
     (if candidates T p = []
      then n = Route ''*'' (ComponentCreator ''*'' None) None None None
      else \<not> is_wildcard n \<and> node_matches n p \<and> n \<in> set (map snd (candidates T p)))"
proof (cases "candidates T p = []")
  case True
  let ?w = "Route ''*'' (ComponentCreator ''*'' None) None None None"
  from wildcard_found [OF assms] have w: "find is_wildcard T = Some ?w" .
  then have "?w \<in> set (table_nodes T)"
    using find_wildcard top_level_node by blast
  with True w show ?thesis by (simp add: resolve_cases)
next
  case False
  from resolve_candidate [OF False] False show ?thesis by auto
qed

theorem resolution_total_witness:
  "candidates routes_js ''/docs/nonexistent'' = [] \<and>
   resolve routes_js ''/docs/nonexistent'' =
     Some (Route ''*'' (ComponentCreator ''*'' None) None None None)"
proof -
  have none: "candidates routes_js ''/docs/nonexistent'' = []"
    by code_simp
  have "routes_js = routes_js \<or> routes_js = routes_part_000" by (rule disjI1) (rule refl)
  from resolution_total [OF this, of "''/docs/nonexistent''"] none show ?thesis
    by auto
qed

subsection \<open>Invariants of the tables\<close>

text \<open>
  C3. Path uniqueness. Within each route table the paths of the records marked
  \<^verbatim>\<open>exact: true\<close> are pairwise different: listed in table order, no path occurs twice.
\<close>

theorem leaf_paths_unique:
  "distinct (map path (exact_records routes_js)) \<and>
   distinct (map path (exact_records routes_part_000))"
  using exact_paths_distinct_js exact_paths_distinct_part_000 by (rule conjI)

text \<open>
  C4, as stated: every node, the top-level wildcard record included, satisfies the shape
  invariant. The wildcard record has no \<open>routes\<close> array and yet no \<^verbatim>\<open>exact: true\<close>, so
  the invariant fails there.
\<close>

theorem wildcard_breaks_shape:
  "Route ''*'' (ComponentCreator ''*'' None) None None None \<in> set (table_nodes routes_js) \<and>
   Route ''*'' (ComponentCreator ''*'' None) None None None \<in> set (table_nodes routes_part_000) \<and>
   routes (Route ''*'' (ComponentCreator ''*'' None) None None None) = None \<and>
   \<not> shape_ok (Route ''*'' (ComponentCreator ''*'' None) None None None)"
  by (simp add: routes_js_def routes_part_000_def table_nodes_def shape_ok_def)

text \<open>
  C4, amended. In both route tables every node other than the wildcard record satisfies
  the shape invariant (no \<open>routes\<close> array: \<^verbatim>\<open>exact: true\<close>; a \<open>routes\<close> array: no
  \<open>exact\<close> key), and a record with path \<^verbatim>\<open>'*'\<close> carries neither key.
\<close>

theorem shape_invariant_except_wildcard:
  assumes "T = routes_js \<or> T = routes_part_000"
    and "n \<in> set (table_nodes T)"
  shows "if path n = ''*'' then exact n = None \<and> routes n = None else shape_ok n"
  using assms shapes_js shapes_part_000 unfolding list_all_iff by blast

theorem shape_invariant_except_wildcard_witness:
  "Route ''/blog'' (ComponentCreator ''/blog'' (Some ''e35'')) (Some True) None None
     \<in> set (table_nodes routes_js) \<and>
   shape_ok (Route ''/blog'' (ComponentCreator ''/blog'' (Some ''e35'')) (Some True) None None)"
proof -
  let ?n = "Route ''/blog'' (ComponentCreator ''/blog'' (Some ''e35'')) (Some True) None None"
  have mem: "?n \<in> set (table_nodes routes_js)"
    by (simp add: routes_js_def table_nodes_def)
  have "routes_js = routes_js \<or> routes_js = routes_part_000" by (rule disjI1) (rule refl)
  from shape_invariant_except_wildcard [OF this mem] mem show ?thesis
    by simp
qed

text \<open>
  C9. Prefix nesting. In both route tables, for every node that carries a \<open>routes\<close>
  array, the path of every child in that array starts with the node's path; and every
  node below a top-level \<^verbatim>\<open>'/docs'\<close> wrapper has a path that starts with \<^verbatim>\<open>'/docs'\<close>.
\<close>

theorem prefix_nesting:
  assumes "T = routes_js \<or> T = routes_part_000"
  shows "(\<forall>n \<in> set (table_nodes T). \<forall>kids. routes n = Some kids \<longrightarrow>
            (\<forall>k \<in> set kids. starts_with (path k) (path n))) \<and>
         (\<forall>r \<in> set T. path r = ''/docs'' \<longrightarrow>
            (\<forall>n \<in> set (all_nodes r). starts_with (path n) ''/docs''))"
proof (intro conjI ballI allI impI)
  fix n kids k
  assume n: "n \<in> set (table_nodes T)" and kids: "routes n = Some kids" and k: "k \<in> set kids"
  from n obtain r where r: "r \<in> set T" and below: "n \<in> set (all_nodes r)"
    by (auto simp: table_nodes_def)
  from assms r prefix_nested_js prefix_nested_part_000 have "prefix_nested r"
    unfolding list_all_iff by blast
  from prefix_nested_child [OF this below kids k]
  show "starts_with (path k) (path n)" .
next
  fix r n
  assume "r \<in> set T" and "path r = ''/docs''" and "n \<in> set (all_nodes r)"
  with assms docs_descendants_js docs_descendants_part_000
  show "starts_with (path n) ''/docs''"
    unfolding list_all_iff by blast
qed

theorem prefix_nesting_witness:
  "routes_js ! 14 \<in> set (table_nodes routes_js) \<and>
   path (routes_js ! 14) = ''/docs'' \<and>
   routes (routes_js ! 14) \<noteq> None \<and>
   the (routes (routes_js ! 14)) \<noteq> [] \<and>
   starts_with (path (hd (the (routes (routes_js ! 14))))) (path (routes_js ! 14))"
proof -
  let ?n = "routes_js ! 14"
  have len: "14 < length routes_js" by (simp add: routes_js_def)
  then have "?n \<in> set routes_js" by (rule nth_mem)
  then have mem: "?n \<in> set (table_nodes routes_js)" by (rule top_level_node)
  have p: "path ?n = ''/docs''" by (simp add: routes_js_def)
  have "\<exists>kids. routes ?n = Some kids \<and> kids \<noteq> []" by (simp add: routes_js_def)
  then obtain kids where kids: "routes ?n = Some kids" and ne: "kids \<noteq> []" by blast
  from ne have k: "hd kids \<in> set kids" by simp
  have "routes_js = routes_js \<or> routes_js = routes_part_000" by (rule disjI1) (rule refl)
  from prefix_nesting [OF this] mem kids k
  have "starts_with (path (hd kids)) (path ?n)" by blast
  with mem p kids ne show ?thesis by simp
qed

subsection \<open>Position of the wildcard record\<close>

text \<open>
  C10. In both route tables the record with path \<^verbatim>\<open>'*'\<close> is the last element of the
  exported top-level list, and no record before it has that path; so in match order every
  non-wildcard record precedes the wildcard.
\<close>

theorem wildcard_is_last:
  "map path routes_js \<noteq> [] \<and> last (map path routes_js) = ''*'' \<and>
   ''*'' \<notin> set (butlast (map path routes_js)) \<and>
   map path routes_part_000 \<noteq> [] \<and> last (map path routes_part_000) = ''*'' \<and>
   ''*'' \<notin> set (butlast (map path routes_part_000))"
  by (simp add: routes_js_def routes_part_000_def)

subsection \<open>Broken-link policy\<close>

text \<open>
  C8. The two configuration files differ in their broken-link policy: the main
  configuration sets \<open>onBrokenLinks\<close> to \<^verbatim>\<open>'throw'\<close>, the alternate variant sets it to
  \<^verbatim>\<open>'warn'\<close>.
\<close>

theorem broken_link_policy_differs:
  "onBrokenLinks config_main = ''throw'' \<and>
   onBrokenLinks config_alternate = ''warn'' \<and>
   onBrokenLinks config_main \<noteq> onBrokenLinks config_alternate"
  by (simp add: config_main_def config_alternate_def)

subsection \<open>Front matter and routes\<close>

text \<open>
  C5. The blog post declares \<^verbatim>\<open>slug: introducing-refract\<close>, and each generated route
  table holds the record \<^verbatim>\<open>{ path: '/blog/introducing-refract', exact: true }\<close>, which
  is the route path of that slug under the blog root.
\<close>

theorem slug_round_trip:
  "front_matter_string introducing_refract_front_matter ''slug'' = Some ''introducing-refract'' \<and>
   blog_route_path ''introducing-refract'' = ''/blog/introducing-refract'' \<and>
   has_exact_record routes_js (blog_route_path ''introducing-refract'') \<and>
   has_exact_record routes_part_000 (blog_route_path ''introducing-refract'')"
  by (simp add: front_matter_string_def introducing_refract_front_matter_def
      blog_route_path_def has_exact_record_def routes_js_def routes_part_000_def)

subsection \<open>Sidebar\<close>

text \<open>
  C6. The sidebar tree is well formed: every category node of \<^verbatim>\<open>tutorialSidebar\<close> has a
  non-empty \<open>items\<close> list and no leaf identifier occurs twice below it. (No identifier
  occurs twice in the whole sidebar either.)
\<close>

theorem sidebar_well_formed:
  "(\<forall>c \<in> set (concat (map categories tutorialSidebar)). category_ok c) \<and>
   distinct (concat (map leaf_ids tutorialSidebar))"
  by (simp add: tutorialSidebar_def)

theorem sidebar_well_formed_witness:
  "Category ''API Reference'' [
      Doc ''api/overview'', Doc ''api/createApp'', Doc ''api/createComponent'',
      Doc ''api/useRefraction'', Doc ''api/useEffect'', Doc ''api/useOptic'',
      Doc ''api/useFlash'', Doc ''api/useLens'']
     \<in> set (concat (map categories tutorialSidebar)) \<and>
   category_ok (Category ''API Reference'' [
      Doc ''api/overview'', Doc ''api/createApp'', Doc ''api/createComponent'',
      Doc ''api/useRefraction'', Doc ''api/useEffect'', Doc ''api/useOptic'',
      Doc ''api/useFlash'', Doc ''api/useLens''])"
proof -
  let ?c = "Category ''API Reference'' [
      Doc ''api/overview'', Doc ''api/createApp'', Doc ''api/createComponent'',
      Doc ''api/useRefraction'', Doc ''api/useEffect'', Doc ''api/useOptic'',
      Doc ''api/useFlash'', Doc ''api/useLens'']"
  have mem: "?c \<in> set (concat (map categories tutorialSidebar))"
    by (simp add: tutorialSidebar_def)
  from sidebar_well_formed mem have "category_ok ?c" by blast
  with mem show ?thesis by simp
qed

text \<open>
  C7. Walking \<^verbatim>\<open>tutorialSidebar\<close> to the leaf \<^verbatim>\<open>'api/createApp'\<close> gives the ancestor
  chain \<^verbatim>\<open>['API Reference']\<close>, and \<^verbatim>\<open>'api/overview'\<close> is one of the leaf's immediate
  siblings (the previous one; the next is \<^verbatim>\<open>'api/createComponent'\<close>).
\<close>

theorem walk_to_createApp:
  "locate tutorialSidebar ''api/createApp'' =
     Some \<lparr>ancestors = [''API Reference''],
           prev_sibling = Some (Doc ''api/overview''),
           next_sibling = Some (Doc ''api/createComponent'')\<rparr> \<and>
   Doc ''api/overview'' \<in> set (siblings (the (locate tutorialSidebar ''api/createApp'')))"
  by (simp add: locate_def tutorialSidebar_def siblings_def)

end
